theory Spec2Isabelle
  imports Complex_Main
begin

section \<open>The ue5osc Communicator\<close>

text \<open>
  A shallow embedding of class \<open>Communicator\<close> of \<open>src/ue5osc/__init__.py\<close>. The object
  and the part of the outside world its methods touch (the datagrams the UDP client puts
  on the wire, the receive socket and the server thread, the response latch of the
  message handler, the image files, the plot, the time slept) are one record that every
  method takes and returns.
\<close>

subsection \<open>Values, messages, outcomes\<close>

text \<open>
  Python values that travel through the methods. A Python \<open>float\<close> is a real number (a
  finite double; infinities and NaN are left out). The contents of an image file are a
  string, and \<open>PySelf\<close> is the session object itself (what \<open>__enter__\<close> returns).
\<close>

datatype pyvalue =
    PyNone
  | PyFloat real
  | PyStr string
  | PyList "pyvalue list"
  | PyImage string
  | PySelf

type_synonym message = "string \<times> pyvalue"

datatype error =
    ValueError
  | TypeError
  | OverflowError
  | BuildError
  | OSError
  | FileNotFoundError
  | IsADirectoryError
  | PermissionError
  | UnidentifiedImageError

text \<open>
  A call returns a value, raises, or never returns (\<open>Blocks\<close>: the caller waits for a
  reply that does not come).
\<close>

datatype 'a outcome = Return 'a | Raise error | Blocks

text \<open>
  \<open>pathlib\<close>: a path is kept as the expression that built it, \<open>Path(directory)\<close> or
  \<open>p / name\<close>. How a path prints (\<open>str(p)\<close>) depends on the host's path flavour and is
  a parameter of the host, \<open>os_str\<close> below.
\<close>

datatype pypath = Path string | Div pypath string

subsection \<open>The host and the session\<close>

text \<open>
  What the session finds around it and never changes:
  \<^item> \<open>engine\<close>: the remote engine, as the decoded replies that reach the message
    handler when the engine receives the last datagram of a history of datagrams;
  \<^item> \<open>image_open\<close>: what \<open>Image.open\<close> does at a path, the image read or the error
    raised (no such file, a directory, not an image, ...);
  \<^item> \<open>os_str\<close>: \<open>str\<close> on paths, for the host's path flavour;
  \<^item> \<open>port_free\<close>: whether no other process holds the local receive port.
\<close>

record host =
  engine :: "message list \<Rightarrow> pyvalue list"
  image_open :: "pypath \<Rightarrow> error + string"
  os_str :: "pypath \<Rightarrow> string"
  port_free :: bool

text \<open>
  The attributes of the object (\<open>path\<close>, \<open>img_number\<close>, \<open>ip\<close>, \<open>client_port\<close>,
  \<open>server_port\<close>, and \<open>file_path\<close>, which exists only once \<open>request_image\<close> has run);
  the state of its server: whether the session holds a socket bound to the receive port
  (\<open>bound\<close>) and whether the server thread is running the receive loop (\<open>serving\<close>); and
  the observable effects: the datagrams put on the wire in order (\<open>sent\<close>), the slot of
  the response latch (\<open>latch\<close>), the seconds slept (\<open>slept\<close>) and the images shown
  (\<open>plot\<close>).
\<close>

record communicator =
  path :: pypath
  img_number :: int
  ip :: string
  client_port :: int
  server_port :: int
  file_path :: "pypath option"
  bound :: bool
  serving :: bool
  host :: host
  sent :: "message list"
  latch :: "pyvalue option"
  slept :: real
  plot :: "string list"

text \<open>Sequencing: the second step runs on the session the first one left, if it returned.\<close>

definition and_then ::
  "pyvalue outcome \<times> communicator \<Rightarrow> (pyvalue \<Rightarrow> communicator \<Rightarrow> pyvalue outcome \<times> communicator)
     \<Rightarrow> pyvalue outcome \<times> communicator" where
  "and_then r f =
     (case r of
        (Return v, s') \<Rightarrow> f v s'
      | (Raise e, s') \<Rightarrow> (Raise e, s')
      | (Blocks, s') \<Rightarrow> (Blocks, s'))"

subsection \<open>Floats on the wire\<close>

text \<open>
  The OSC client packs a float as an IEEE single (\<open>struct.pack(">f", x)\<close>): the double
  is rounded to the nearest single, ties to the even one, and packing raises
  \<open>OverflowError\<close> when the rounded value is beyond the largest single.

  \<open>rne\<close> rounds to the nearest integer, ties to even. \<open>binade x\<close> is the exponent \<open>e\<close> with
  \<open>2 ^ e \<le> \<bar>x\<bar>\<close>, kept between \<open>-126\<close> (below it singles are subnormal) and \<open>127\<close>; the
  singles there are the multiples of \<open>2 ^ (e - 23)\<close>, and \<open>round32 x\<close> is the one nearest
  to \<open>x\<close>.
\<close>

definition rne :: "real \<Rightarrow> int" where
  "rne y =
     (let f = \<lfloor>y\<rfloor>; d = y - of_int f
      in if d < 1 / 2 then f else if 1 / 2 < d then f + 1 else if even f then f else f + 1)"

function binade_from :: "int \<Rightarrow> real \<Rightarrow> int" where
  "binade_from e x =
     (if e \<le> - 126 then - 126 else if 2 powi e \<le> \<bar>x\<bar> then e else binade_from (e - 1) x)"
  by pat_completeness auto
termination
  by (relation "measure (\<lambda>(e, x). nat (e + 126))") auto

definition binade :: "real \<Rightarrow> int" where
  "binade x = binade_from 127 x"

definition round32 :: "real \<Rightarrow> real" where
  "round32 x = (let q = 2 powi (binade x - 23) in of_int (rne (x / q)) * q)"

definition float32 :: "real \<Rightarrow> real option" where
  "float32 x = (let r = round32 x in if 2 powi 128 \<le> \<bar>r\<bar> then None else Some r)"

subsection \<open>The client and the message handler\<close>

text \<open>
  What the client accepts as an argument of a message: floats, strings, \<open>None\<close> and lists
  of these; for anything else building the message raises \<open>ValueError\<close>.
\<close>

fun supported :: "pyvalue \<Rightarrow> bool" where
  "supported (PyList vs) = list_all supported vs"
| "supported (PyImage _) = False"
| "supported PySelf = False"
| "supported _ = True"

text \<open>The arguments as the datagram carries them: every float as a single.\<close>

fun pack :: "pyvalue \<Rightarrow> pyvalue option" where
  "pack (PyFloat x) = map_option PyFloat (float32 x)"
| "pack (PyList vs) = map_option PyList (those (map pack vs))"
| "pack v = Some v"

text \<open>
  Modelled from the spec: \<open>OSCMessageReceiver\<close> of \<open>ue5osc/osc_dispatcher.py\<close>, which is
  not among the sources. The response latch is a single slot; a released value stays in
  the slot until it is awaited, and a later release overwrites it.
\<close>

definition release :: "pyvalue list \<Rightarrow> pyvalue option \<Rightarrow> pyvalue option" where
  "release rs slot = (case rs of [] \<Rightarrow> slot | _ # _ \<Rightarrow> Some (last rs))"

text \<open>
  Modelled from the spec: \<open>wait_for_response\<close> of the same class. It blocks until the slot
  holds a value, returns that value and clears the slot. In the embedding the engine
  replies only to what it is sent, so an empty slot stays empty and the wait never ends.
\<close>

definition wait_for_response :: "communicator \<Rightarrow> pyvalue outcome \<times> communicator" where
  "wait_for_response s =
     (case latch s of
        None \<Rightarrow> (Blocks, s)
      | Some v \<Rightarrow> (Return v, s\<lparr>latch := None\<rparr>))"

text \<open>
  \<open>self.client.send_message(address, data)\<close>. The client builds the message first: an
  argument of an unsupported type is a \<open>ValueError\<close>, an empty address a \<open>BuildError\<close>, a
  float beyond the singles an \<open>OverflowError\<close>, and then nothing is transmitted. Otherwise
  one datagram leaves for the engine, with its floats in single precision. What the
  engine replies to it reaches the latch through the server thread, so only while that
  thread is serving.
\<close>

definition send_message :: "string \<Rightarrow> pyvalue \<Rightarrow> communicator \<Rightarrow> pyvalue outcome \<times> communicator" where
  "send_message address data s =
     (if \<not> supported data then (Raise ValueError, s)
      else if address = [] then (Raise BuildError, s)
      else case pack data of
             None \<Rightarrow> (Raise OverflowError, s)
           | Some args \<Rightarrow>
               (let out = sent s @ [(address, args)]
                in (Return PyNone,
                    s\<lparr>sent := out,
                      latch := (if serving s then release (engine (host s) out) (latch s)
                                else latch s)\<rparr>)))"

text \<open>\<open>float(x)\<close> of a float is that float.\<close>

definition py_float :: "real \<Rightarrow> real" where
  "py_float x = x"

subsection \<open>Formatting the image number\<close>

text \<open>The character of a decimal digit \<open>d < 10\<close>.\<close>

definition digit_char :: "nat \<Rightarrow> char" where
  "digit_char d = ''0123456789'' ! d"

fun decimal :: "nat \<Rightarrow> string" where
  "decimal n = (if n < 10 then [digit_char n] else decimal (n div 10) @ [digit_char (n mod 10)])"

definition zfill :: "nat \<Rightarrow> string \<Rightarrow> string" where
  "zfill w ds = replicate (w - length ds) CHR ''0'' @ ds"

text \<open>
  \<open>f"{n:06}"\<close>: the decimal digits of \<open>n\<close>, filled with zeros on the left up to a width
  of six characters; a minus sign comes first and counts in the width.
\<close>

definition format_06 :: "int \<Rightarrow> string" where
  "format_06 n =
     (if n < 0 then CHR ''-'' # zfill 5 (decimal (nat (- n))) else zfill 6 (decimal (nat n)))"

text \<open>
  Reading a string of decimal digits back as a number, as \<open>int(s)\<close> does; it serves to say
  which number a file name denotes.
\<close>

definition digit_value :: "char \<Rightarrow> nat" where
  "digit_value c = of_char c - 48"

definition py_int :: "string \<Rightarrow> nat" where
  "py_int ds = foldl (\<lambda>a c. 10 * a + digit_value c) 0 ds"

subsection \<open>The methods\<close>

text \<open>
  Every method takes the session and returns its outcome with the session it leaves.
  \<open>__enter__\<close>, \<open>__exit__\<close> and \<open>show\<close> are \<open>enter\<close>, \<open>exit\<close> and \<open>show_image\<close> here
  (\<open>show\<close> is a keyword of the proof language).

  \<open>init_osc\<close> makes the server, which binds a socket to the receive port, makes the
  client and starts the server thread. Binding raises \<open>OSError\<close> when the port is held,
  by another process or by the socket of a server this session made before: no method
  ever closes that socket.
\<close>

definition init_osc :: "communicator \<Rightarrow> pyvalue outcome \<times> communicator" where
  "init_osc s =
     (if port_free (host s) \<and> \<not> bound s
      then (Return PyNone, s\<lparr>bound := True, serving := True\<rparr>)
      else (Raise OSError, s))"

text \<open>
  \<open>Communicator(ip, client_port, server_port, directory)\<close> on a host: the attributes are
  set, nothing has been sent, and \<open>init_osc\<close> binds the server or raises.
\<close>

definition Communicator :: "host \<Rightarrow> string \<Rightarrow> int \<Rightarrow> int \<Rightarrow> string \<Rightarrow> communicator outcome" where
  "Communicator h ip_arg client_port_arg server_port_arg directory =
     (let s = \<lparr>path = Path directory, img_number = 0, ip = ip_arg,
                client_port = client_port_arg, server_port = server_port_arg,
                file_path = None, bound = False, serving = False, host = h, sent = [],
                latch = None, slept = 0, plot = []\<rparr>
      in case init_osc s of
           (Return _, s') \<Rightarrow> Return s'
         | (Raise e, _) \<Rightarrow> Raise e
         | (Blocks, _) \<Rightarrow> Blocks)"

text \<open>\<open>__enter__\<close> returns the session itself.\<close>

definition enter :: "communicator \<Rightarrow> pyvalue outcome \<times> communicator" where
  "enter s = (Return PySelf, s)"

text \<open>
  \<open>close_osc\<close>: \<open>server.shutdown()\<close> stops the receive loop and \<open>server_thread.join()\<close>
  waits for the thread to end. Neither closes the socket (\<open>server_close()\<close> is not
  called), so the session stays bound to the receive port.
\<close>

definition close_osc :: "communicator \<Rightarrow> pyvalue outcome \<times> communicator" where
  "close_osc s = (Return PyNone, s\<lparr>serving := False\<rparr>)"

text \<open>
  \<open>__exit__\<close>; the argument says whether the scope is left by an exception (and by which)
  or normally.
\<close>

definition exit :: "error option \<Rightarrow> communicator \<Rightarrow> pyvalue outcome \<times> communicator" where
  "exit exc s = close_osc s"

definition send_and_wait :: "string \<Rightarrow> communicator \<Rightarrow> pyvalue outcome \<times> communicator" where
  "send_and_wait osc_address s =
     (let dummy_data = PyFloat 0
      in and_then (send_message osc_address dummy_data s) (\<lambda>_ s'. wait_for_response s'))"

definition get_project_name :: "communicator \<Rightarrow> pyvalue outcome \<times> communicator" where
  "get_project_name s = send_and_wait ''/get/project'' s"

definition get_player_location :: "communicator \<Rightarrow> pyvalue outcome \<times> communicator" where
  "get_player_location s = send_and_wait ''/get/location'' s"

definition set_player_location ::
  "real \<Rightarrow> real \<Rightarrow> real \<Rightarrow> communicator \<Rightarrow> pyvalue outcome \<times> communicator" where
  "set_player_location x y z s =
     send_message ''/set/location'' (PyList [PyFloat x, PyFloat y, PyFloat z]) s"

definition get_player_rotation :: "communicator \<Rightarrow> pyvalue outcome \<times> communicator" where
  "get_player_rotation s = send_and_wait ''/get/rotation'' s"

text \<open>
  \<open>a, b, c = v\<close>: a list of three elements or a string of three characters unpacks; any
  other list or string is a \<open>ValueError\<close>, and a value that is not iterable a \<open>TypeError\<close>.
\<close>

fun unpack3 :: "pyvalue \<Rightarrow> error + (pyvalue \<times> pyvalue \<times> pyvalue)" where
  "unpack3 (PyList [a, b, c]) = Inr (a, b, c)"
| "unpack3 (PyList _) = Inl ValueError"
| "unpack3 (PyStr [a, b, c]) = Inr (PyStr [a], PyStr [b], PyStr [c])"
| "unpack3 (PyStr _) = Inl ValueError"
| "unpack3 _ = Inl TypeError"

definition set_player_yaw :: "real \<Rightarrow> communicator \<Rightarrow> pyvalue outcome \<times> communicator" where
  "set_player_yaw yaw s =
     and_then (get_player_rotation s)
       (\<lambda>v s'. case unpack3 v of
                  Inl e \<Rightarrow> (Raise e, s')
                | Inr (ue_roll, ue_pitch, _) \<Rightarrow>
                    send_message ''/set/rotation'' (PyList [ue_pitch, ue_roll, PyFloat yaw]) s')"

definition move_forward :: "real \<Rightarrow> communicator \<Rightarrow> pyvalue outcome \<times> communicator" where
  "move_forward amount s = send_message ''/move/forward'' (PyFloat (py_float amount)) s"

definition turn_left :: "real \<Rightarrow> communicator \<Rightarrow> pyvalue outcome \<times> communicator" where
  "turn_left degree s = send_message ''/turn/left'' (PyFloat (py_float degree)) s"

definition turn_right :: "real \<Rightarrow> communicator \<Rightarrow> pyvalue outcome \<times> communicator" where
  "turn_right degree s = send_message ''/turn/right'' (PyFloat (py_float degree)) s"

definition move_backward :: "real \<Rightarrow> communicator \<Rightarrow> pyvalue outcome \<times> communicator" where
  "move_backward amount s = send_message ''/move/forward'' (PyFloat (py_float (- amount))) s"

text \<open>
  \<open>save_image\<close> adds one to the image number, sends \<open>f"{self.path}/{self.img_number:06}"\<close>
  and sleeps for a second and a half.
\<close>

definition save_image :: "communicator \<Rightarrow> pyvalue outcome \<times> communicator" where
  "save_image s =
     (let s1 = s\<lparr>img_number := img_number s + 1\<rparr>
      in and_then
           (send_message ''/save/image''
              (PyStr (os_str (host s1) (path s1) @ ''/'' @ format_06 (img_number s1))) s1)
           (\<lambda>_ s2. (Return PyNone, s2\<lparr>slept := slept s2 + 3 / 2\<rparr>)))"

text \<open>
  \<open>request_image\<close> keeps the path \<open>self.path / f"{self.img_number:06}"\<close> in \<open>file_path\<close>
  and opens the image there; what \<open>Image.open\<close> raises, it raises.
\<close>

definition request_image :: "communicator \<Rightarrow> pyvalue outcome \<times> communicator" where
  "request_image s =
     (let p = Div (path s) (format_06 (img_number s));
          s1 = s\<lparr>file_path := Some p\<rparr>
      in case image_open (host s1) p of
           Inl e \<Rightarrow> (Raise e, s1)
         | Inr img \<Rightarrow> (Return (PyImage img), s1))"

text \<open>\<open>show\<close>: \<open>plt.imshow(self.request_image())\<close>.\<close>

definition show_image :: "communicator \<Rightarrow> pyvalue outcome \<times> communicator" where
  "show_image s =
     and_then (request_image s)
       (\<lambda>v s'. case v of
                  PyImage img \<Rightarrow> (Return PyNone, s'\<lparr>plot := plot s' @ [img]\<rparr>)
                | _ \<Rightarrow> (Raise TypeError, s'))"

definition take_screenshot :: "string \<Rightarrow> communicator \<Rightarrow> pyvalue outcome \<times> communicator" where
  "take_screenshot filename s = send_message ''/screenshot'' (PyStr filename) s"

definition reset_to_start :: "communicator \<Rightarrow> pyvalue outcome \<times> communicator" where
  "reset_to_start s =
     and_then (send_message ''/reset'' (PyFloat 0) s)
       (\<lambda>_ s1. (Return PyNone, s1\<lparr>slept := slept s1 + 1\<rparr>))"

text \<open>
  Two sessions with the same endpoint configuration, host and image number; this is what
  every method but \<open>save_image\<close> keeps.
\<close>

definition untouched :: "communicator \<Rightarrow> communicator \<Rightarrow> bool" where
  "untouched s s' =
     (ip s' = ip s \<and> client_port s' = client_port s \<and> server_port s' = server_port s
      \<and> path s' = path s \<and> host s' = host s \<and> img_number s' = img_number s)"

subsection \<open>The public surface\<close>

text \<open>One constructor for each method of the class that a caller can invoke on a session.\<close>

datatype call =
    Enter
  | Exit "error option"
  | InitOsc
  | CloseOsc
  | SendAndWait string
  | GetProjectName
  | GetPlayerLocation
  | SetPlayerLocation real real real
  | GetPlayerRotation
  | SetPlayerYaw real
  | MoveForward real
  | TurnLeft real
  | TurnRight real
  | MoveBackward real
  | SaveImage
  | RequestImage
  | ShowImage
  | TakeScreenshot string
  | ResetToStart

fun perform :: "call \<Rightarrow> communicator \<Rightarrow> pyvalue outcome \<times> communicator" where
  "perform Enter s = enter s"
| "perform (Exit exc) s = exit exc s"
| "perform InitOsc s = init_osc s"
| "perform CloseOsc s = close_osc s"
| "perform (SendAndWait a) s = send_and_wait a s"
| "perform GetProjectName s = get_project_name s"
| "perform GetPlayerLocation s = get_player_location s"
| "perform (SetPlayerLocation x y z) s = set_player_location x y z s"
| "perform GetPlayerRotation s = get_player_rotation s"
| "perform (SetPlayerYaw yaw) s = set_player_yaw yaw s"
| "perform (MoveForward amount) s = move_forward amount s"
| "perform (TurnLeft degree) s = turn_left degree s"
| "perform (TurnRight degree) s = turn_right degree s"
| "perform (MoveBackward amount) s = move_backward amount s"
| "perform SaveImage s = save_image s"
| "perform RequestImage s = request_image s"
| "perform ShowImage s = show_image s"
| "perform (TakeScreenshot filename) s = take_screenshot filename s"
| "perform ResetToStart s = reset_to_start s"

text \<open>
  A caller's sequence of calls, each on the session the previous one left (whatever its
  outcome: a caller may catch an exception and go on).
\<close>

fun perform_all :: "call list \<Rightarrow> communicator \<Rightarrow> communicator" where
  "perform_all [] s = s"
| "perform_all (c # cs) s = perform_all cs (snd (perform c s))"

text \<open>\<open>n\<close> calls of \<open>save_image\<close> in a row.\<close>

fun save_image_times :: "nat \<Rightarrow> communicator \<Rightarrow> communicator" where
  "save_image_times 0 s = s"
| "save_image_times (Suc n) s = snd (save_image (save_image_times n s))"

subsection \<open>Hosts for the examples\<close>

text \<open>
  The stub engine of the round-trip test: it answers a \<open>/get/location\<close> request with the
  arguments of the latest \<open>/set/location\<close> datagram it has received, and says nothing
  otherwise.
\<close>

definition echo_engine :: "message list \<Rightarrow> pyvalue list" where
  "echo_engine history =
     (case rev history of
        [] \<Rightarrow> []
      | (address, _) # earlier \<Rightarrow>
          if address = ''/get/location''
          then (case filter (\<lambda>m. fst m = ''/set/location'') earlier of
                  [] \<Rightarrow> []
                | m # _ \<Rightarrow> [snd m])
          else [])"

text \<open>
  The POSIX flavour, for a directory written without doubled separators, dots or a
  trailing slash: it prints as it was given, and a joined name follows a slash.
\<close>

fun plain_str :: "pypath \<Rightarrow> string" where
  "plain_str (Path d) = d"
| "plain_str (Div p name) = plain_str p @ ''/'' @ name"

text \<open>
  The Windows flavour, for a directory written without doubled separators or dots: every
  separator prints as a backslash, also those written as slashes in \<open>Path("C:/ue/imgs")\<close>.
\<close>

definition backslash :: char where
  "backslash = CHR 0x5C"

fun windows_str :: "pypath \<Rightarrow> string" where
  "windows_str (Path d) = map (\<lambda>c. if c = CHR ''/'' then backslash else c) d"
| "windows_str (Div p name) = windows_str p @ [backslash] @ name"


text \<open>A host with the stub engine and one image on disk, \<open>imgs/000001\<close>.\<close>

definition echo_host :: host where
  "echo_host =
     \<lparr>engine = echo_engine,
      image_open =
        (\<lambda>p. if p = Div (Path ''imgs'') ''000001'' then Inr ''PNG'' else Inl FileNotFoundError),
      os_str = plain_str, port_free = True\<rparr>"

text \<open>A Windows host.\<close>

definition windows_host :: host where
  "windows_host =
     \<lparr>engine = echo_engine, image_open = (\<lambda>_. Inl FileNotFoundError), os_str = windows_str,
      port_free = True\<rparr>"

text \<open>
  The session \<open>Communicator("127.0.0.1", 7447, 7001, directory)\<close> on a host, once built.
\<close>

definition built :: "host \<Rightarrow> string \<Rightarrow> communicator" where
  "built h directory =
     \<lparr>path = Path directory, img_number = 0, ip = ''127.0.0.1'', client_port = 7447,
      server_port = 7001, file_path = None, bound = True, serving = True, host = h,
      sent = [], latch = None, slept = 0, plot = []\<rparr>"

definition session_on :: "host \<Rightarrow> communicator" where
  "session_on h = built h ''imgs''"

section \<open>Properties\<close>

declare decimal.simps [simp del]

declare binade_from.simps [simp del]

subsection \<open>Rounding to single precision\<close>

lemma rne_error: "\<bar>of_int (rne y) - y\<bar> \<le> 1 / 2"
proof -
  have "of_int \<lfloor>y\<rfloor> \<le> y" and "y < of_int \<lfloor>y\<rfloor> + 1" by linarith+
  then show ?thesis by (auto simp: rne_def Let_def)
qed



lemma binade_from_range: "- 126 \<le> e0 \<Longrightarrow> - 126 \<le> binade_from e0 x \<and> binade_from e0 x \<le> e0"
proof (induction e0 x rule: binade_from.induct)
  case (1 e x)
  then show ?case by (subst binade_from.simps, subst (2) binade_from.simps) auto
qed

lemma binade_from_low: "binade_from e0 x = - 126 \<or> 2 powi (binade_from e0 x) \<le> \<bar>x\<bar>"
proof (induction e0 x rule: binade_from.induct)
  case (1 e x)
  show ?case
  proof (cases "e \<le> - 126")
    case True
    then show ?thesis by (subst binade_from.simps) simp
  next
    case False
    show ?thesis
    proof (cases "2 powi e \<le> \<bar>x\<bar>")
      case True
      with False have "binade_from e x = e" by (subst binade_from.simps) simp
      with True show ?thesis by simp
    next
      case b: False
      with False have "binade_from e x = binade_from (e - 1) x" by (subst binade_from.simps) simp
      with 1 [OF False b] show ?thesis by simp
    qed
  qed
qed

lemma binade_from_eqI:
  "e \<le> e0 \<Longrightarrow> - 126 \<le> e \<Longrightarrow> 2 powi e \<le> \<bar>x\<bar> \<Longrightarrow> \<bar>x\<bar> < 2 powi (e + 1) \<Longrightarrow> binade_from e0 x = e"
proof (induction e0 x rule: binade_from.induct)
  case (1 e0 x)
  show ?case
  proof (cases "e0 = e")
    case True
    show ?thesis
    proof (cases "e \<le> - 126")
      case True
      with 1(3) \<open>e0 = e\<close> show ?thesis by (subst binade_from.simps) simp
    next
      case False
      with 1(4) \<open>e0 = e\<close> show ?thesis by (subst binade_from.simps) simp
    qed
  next
    case False
    with 1(2) have lt: "e < e0" by simp
    then have "e + 1 \<le> e0" by simp
    then have "(2::real) powi (e + 1) \<le> 2 powi e0" by (intro power_int_increasing) simp_all
    with 1(5) have n: "\<not> 2 powi e0 \<le> \<bar>x\<bar>" by linarith
    from lt 1(3) have m: "\<not> e0 \<le> - 126" by simp
    have "binade_from e0 x = binade_from (e0 - 1) x"
      using n m by (subst binade_from.simps) simp
    moreover have "binade_from (e0 - 1) x = e"
      using 1(1) [OF m n] lt 1(3) 1(4) 1(5) by simp
    ultimately show ?thesis by simp
  qed
qed

lemma binade_eqI:
  "- 126 \<le> e \<Longrightarrow> e \<le> 127 \<Longrightarrow> 2 powi e \<le> \<bar>x\<bar> \<Longrightarrow> \<bar>x\<bar> < 2 powi (e + 1) \<Longrightarrow> binade x = e"
  unfolding binade_def by (rule binade_from_eqI)


lemma binade_range: "- 126 \<le> binade x \<and> binade x \<le> 127"
  unfolding binade_def by (rule binade_from_range) simp

lemma round32_error: "\<bar>round32 x - x\<bar> \<le> 2 powi (binade x - 24)"
proof -
  define q :: real where "q = 2 powi (binade x - 23)"
  have qpos: "0 < q" by (simp add: q_def)
  have r: "round32 x = of_int (rne (x / q)) * q"
    by (simp add: round32_def Let_def q_def)
  have "round32 x - x = (of_int (rne (x / q)) - x / q) * q"
    using qpos by (simp add: r field_simps)
  then have "\<bar>round32 x - x\<bar> = \<bar>of_int (rne (x / q)) - x / q\<bar> * q"
    using qpos by (simp add: abs_mult)
  also have "\<dots> \<le> (1 / 2) * q"
    using rne_error [of "x / q"] qpos by (intro mult_right_mono) simp_all
  also have "\<dots> = 2 powi (binade x - 24)"
    by (simp add: q_def power_int_diff)
  finally show ?thesis .
qed

text \<open>
  A single differs from the double it was rounded from by at most the \<open>2 ^ 24\<close>-th part
  of the double (or by \<open>2 ^ -150\<close>, for a double too small to be a normal single).
\<close>

lemma round32_tolerance: "\<bar>round32 x - x\<bar> \<le> max (\<bar>x\<bar> / 2 ^ 24) (2 powi (- 150))"
proof -
  note b = round32_error [of x]
  from binade_from_low [of 127 x] have "binade x = - 126 \<or> 2 powi (binade x) \<le> \<bar>x\<bar>"
    by (simp add: binade_def)
  then show ?thesis
  proof
    assume "binade x = - 126"
    with b have "\<bar>round32 x - x\<bar> \<le> 2 powi (- 150)" by simp
    then show ?thesis by (rule max.coboundedI2)
  next
    assume "2 powi (binade x) \<le> \<bar>x\<bar>"
    then have "2 powi (binade x - 24) \<le> \<bar>x\<bar> / 2 ^ 24"
      by (simp add: power_int_diff field_simps)
    with b have "\<bar>round32 x - x\<bar> \<le> \<bar>x\<bar> / 2 ^ 24" by (rule order_trans)
    then show ?thesis by (rule max.coboundedI1)
  qed
qed


text \<open>Which doubles pack: all below the largest single and half a step, none from \<open>2 ^ 128\<close> on.\<close>

lemma float32_in_range:
  assumes "\<bar>x\<bar> < 2 powi 128 - 2 powi 103"
  shows "float32 x = Some (round32 x)"
proof -
  have "binade x - 24 \<le> 103" using binade_range [of x] by simp
  then have "(2::real) powi (binade x - 24) \<le> 2 powi 103"
    by (intro power_int_increasing) simp_all
  with round32_error [of x] have "\<bar>round32 x - x\<bar> \<le> 2 powi 103" by (rule order_trans)
  with assms have "\<bar>round32 x\<bar> < 2 powi 128" by linarith
  then show ?thesis by (simp add: float32_def Let_def)
qed



lemma round32_0: "round32 0 = 0"
  by (simp add: round32_def Let_def rne_def)

lemma float32_0: "float32 0 = Some 0"
  by (simp add: float32_def Let_def round32_0)

lemma round32_1: "round32 1 = 1"
proof -
  have "binade 1 = 0" by (rule binade_eqI) simp_all
  then show ?thesis by (simp add: round32_def Let_def rne_def)
qed

lemma round32_2: "round32 2 = 2"
proof -
  have "binade 2 = 1" by (rule binade_eqI) simp_all
  then show ?thesis by (simp add: round32_def Let_def rne_def)
qed

lemma round32_3: "round32 3 = 3"
proof -
  have "binade 3 = 1" by (rule binade_eqI) simp_all
  then show ?thesis by (simp add: round32_def Let_def rne_def)
qed

lemma round32_10: "round32 10 = 10"
proof -
  have "binade 10 = 3" by (rule binade_eqI) simp_all
  then show ?thesis by (simp add: round32_def Let_def rne_def)
qed

lemma round32_20: "round32 20 = 20"
proof -
  have "binade 20 = 4" by (rule binade_eqI) simp_all
  then show ?thesis by (simp add: round32_def Let_def rne_def)
qed

lemma round32_45: "round32 45 = 45"
proof -
  have "binade 45 = 5" by (rule binade_eqI) simp_all
  then show ?thesis by (simp add: round32_def Let_def rne_def)
qed

lemma round32_minus_5: "round32 (- 5) = - 5"
proof -
  have "binade (- 5) = 2" by (rule binade_eqI) simp_all
  then show ?thesis by (simp add: round32_def Let_def rne_def)
qed

lemma round32_16777217: "round32 16777217 = 16777216"
proof -
  have "binade 16777217 = 24" by (rule binade_eqI) simp_all
  then show ?thesis by (simp add: round32_def Let_def rne_def)
qed

lemmas round32_values =
  round32_0 round32_1 round32_2 round32_3 round32_10 round32_20 round32_45 round32_minus_5
  round32_16777217

lemma float32_values:
  "float32 1 = Some 1" "float32 2 = Some 2" "float32 3 = Some 3" "float32 10 = Some 10"
  "float32 20 = Some 20" "float32 45 = Some 45" "float32 (- 5) = Some (- 5)"
  "float32 16777217 = Some 16777216"
  by (simp_all add: float32_def Let_def round32_values)


subsection \<open>Reading the digits back\<close>

lemma digit_value_digit_char: "d < 10 \<Longrightarrow> digit_value (digit_char d) = d"
proof -
  assume "d < 10"
  then have "d = 0 \<or> d = 1 \<or> d = 2 \<or> d = 3 \<or> d = 4 \<or> d = 5 \<or> d = 6 \<or> d = 7 \<or> d = 8 \<or> d = 9"
    by arith
  then show ?thesis
    by (elim disjE) (simp_all add: digit_value_def digit_char_def)
qed

lemma py_int_snoc: "py_int (ds @ [c]) = 10 * py_int ds + digit_value c"
  by (simp add: py_int_def)

lemma py_int_decimal: "py_int (decimal n) = n"
proof (induction n rule: decimal.induct)
  case (1 n)
  show ?case
  proof (cases "n < 10")
    case True
    then show ?thesis
      by (subst decimal.simps) (simp add: py_int_def digit_value_digit_char)
  next
    case False
    with 1 have "py_int (decimal (n div 10)) = n div 10" by simp
    with False show ?thesis
      by (subst decimal.simps) (simp add: py_int_snoc digit_value_digit_char)
  qed
qed

lemma py_int_zeros: "py_int (replicate k CHR ''0'' @ ds) = py_int ds"
proof -
  have "foldl (\<lambda>a c. 10 * a + digit_value c) 0 (replicate k CHR ''0'') = 0"
    by (induction k) (simp_all add: digit_value_def)
  then show ?thesis by (simp add: py_int_def)
qed

lemma py_int_format_06: "0 \<le> n \<Longrightarrow> py_int (format_06 n) = nat n"
  by (simp add: format_06_def zfill_def py_int_zeros py_int_decimal)

subsection \<open>What one datagram does to the session\<close>

lemma send_message_str:
  "a \<noteq> [] \<Longrightarrow>
   send_message a (PyStr x) s =
     (Return PyNone,
      s\<lparr>sent := sent s @ [(a, PyStr x)],
        latch := (if serving s then release (engine (host s) (sent s @ [(a, PyStr x)])) (latch s)
                  else latch s)\<rparr>)"
  by (simp add: send_message_def Let_def)

lemma send_message_float:
  "a \<noteq> [] \<Longrightarrow>
   send_message a (PyFloat x) s =
     (case float32 x of
        None \<Rightarrow> (Raise OverflowError, s)
      | Some r \<Rightarrow>
          (Return PyNone,
           s\<lparr>sent := sent s @ [(a, PyFloat r)],
             latch := (if serving s
                       then release (engine (host s) (sent s @ [(a, PyFloat r)])) (latch s)
                       else latch s)\<rparr>))"
  by (simp add: send_message_def Let_def split: option.splits)

lemma send_message_float_sent:
  "a \<noteq> [] \<Longrightarrow>
   (case float32 x of
      None \<Rightarrow> send_message a (PyFloat x) s = (Raise OverflowError, s)
    | Some r \<Rightarrow>
        fst (send_message a (PyFloat x) s) = Return PyNone
        \<and> sent (snd (send_message a (PyFloat x) s)) = sent s @ [(a, PyFloat r)])"
  by (simp add: send_message_float split: option.splits)

lemma send_message_triple:
  "a \<noteq> [] \<Longrightarrow>
   send_message a (PyList [PyFloat u, PyFloat v, PyFloat w]) s =
     (case (float32 u, float32 v, float32 w) of
        (Some u', Some v', Some w') \<Rightarrow>
          (Return PyNone,
           s\<lparr>sent := sent s @ [(a, PyList [PyFloat u', PyFloat v', PyFloat w'])],
             latch := (if serving s
                       then release (engine (host s)
                              (sent s @ [(a, PyList [PyFloat u', PyFloat v', PyFloat w'])])) (latch s)
                       else latch s)\<rparr>)
      | _ \<Rightarrow> (Raise OverflowError, s))"
  by (simp add: send_message_def Let_def split: option.splits)

lemma frame_send_message:
  "img_number (snd (send_message a d s)) = img_number s
   \<and> ip (snd (send_message a d s)) = ip s
   \<and> client_port (snd (send_message a d s)) = client_port s
   \<and> server_port (snd (send_message a d s)) = server_port s
   \<and> path (snd (send_message a d s)) = path s
   \<and> host (snd (send_message a d s)) = host s"
  by (simp add: send_message_def Let_def split: option.splits)

lemma sent_send_and_wait:
  "a \<noteq> [] \<Longrightarrow> sent (snd (send_and_wait a s)) = sent s @ [(a, PyFloat 0)]"
  by (simp add: send_and_wait_def and_then_def send_message_float float32_0
      wait_for_response_def split: option.splits)

lemma send_and_wait_outcome:
  "a \<noteq> [] \<Longrightarrow>
   fst (send_and_wait a s) =
     (case latch (snd (send_message a (PyFloat 0) s)) of None \<Rightarrow> Blocks | Some v \<Rightarrow> Return v)"
  by (simp add: send_and_wait_def and_then_def send_message_float float32_0
      wait_for_response_def split: option.splits)

lemma save_image_eq:
  "save_image s =
     (Return PyNone,
      s\<lparr>img_number := img_number s + 1,
        sent := sent s @ [(''/save/image'',
                  PyStr (os_str (host s) (path s) @ ''/'' @ format_06 (img_number s + 1)))],
        latch := (if serving s
                  then release (engine (host s)
                         (sent s @ [(''/save/image'',
                            PyStr (os_str (host s) (path s) @ ''/'' @ format_06 (img_number s + 1)))]))
                         (latch s)
                  else latch s),
        slept := slept s + 3 / 2\<rparr>)"
  by (simp add: save_image_def Let_def send_message_str and_then_def)

subsection \<open>What a call leaves alone\<close>

lemma untouched_refl: "untouched s s"
  by (simp add: untouched_def)

lemma untouched_send_message: "untouched s0 s \<Longrightarrow> untouched s0 (snd (send_message a d s))"
  by (simp add: untouched_def frame_send_message)

lemma untouched_wait_for_response:
  "untouched s0 s \<Longrightarrow> untouched s0 (snd (wait_for_response s))"
  by (simp add: untouched_def wait_for_response_def split: option.splits)

lemma untouched_and_then:
  assumes "untouched s0 (snd r)"
    and "\<And>v s'. untouched s0 s' \<Longrightarrow> untouched s0 (snd (f v s'))"
  shows "untouched s0 (snd (and_then r f))"
proof (cases r)
  case (Pair out s')
  with assms(1) have u: "untouched s0 s'" by simp
  show ?thesis
  proof (cases out)
    case (Return v)
    with Pair assms(2) [OF u, of v] show ?thesis by (simp add: and_then_def)
  next
    case (Raise e)
    with Pair u show ?thesis by (simp add: and_then_def)
  next
    case Blocks
    with Pair u show ?thesis by (simp add: and_then_def)
  qed
qed

lemma untouched_send_and_wait: "untouched s0 s \<Longrightarrow> untouched s0 (snd (send_and_wait a s))"
  unfolding send_and_wait_def Let_def
  by (intro untouched_and_then untouched_send_message untouched_wait_for_response)

lemma untouched_set_player_yaw: "untouched s0 s \<Longrightarrow> untouched s0 (snd (set_player_yaw yaw s))"
  unfolding set_player_yaw_def get_player_rotation_def
proof (intro untouched_and_then untouched_send_and_wait)
  fix v s'
  assume "untouched s0 s'"
  then show "untouched s0
     (snd (case unpack3 v of
             Inl e \<Rightarrow> (Raise e, s')
           | Inr (ue_roll, ue_pitch, _) \<Rightarrow>
               send_message ''/set/rotation'' (PyList [ue_pitch, ue_roll, PyFloat yaw]) s'))"
    by (auto simp: untouched_send_message split: sum.splits)
qed

lemma untouched_request_image: "untouched s0 s \<Longrightarrow> untouched s0 (snd (request_image s))"
  by (simp add: untouched_def request_image_def Let_def split: sum.splits)

lemma untouched_show_image: "untouched s0 s \<Longrightarrow> untouched s0 (snd (show_image s))"
  unfolding show_image_def
proof (intro untouched_and_then untouched_request_image)
  fix v s'
  assume "untouched s0 s'"
  then show "untouched s0
     (snd (case v of
             PyImage img \<Rightarrow> (Return PyNone, s'\<lparr>plot := plot s' @ [img]\<rparr>)
           | _ \<Rightarrow> (Raise TypeError, s')))"
    by (cases v) (simp_all add: untouched_def)
qed

lemma untouched_reset_to_start: "untouched s0 s \<Longrightarrow> untouched s0 (snd (reset_to_start s))"
  unfolding reset_to_start_def
  by (intro untouched_and_then untouched_send_message) (auto simp: untouched_def)

lemma untouched_perform: "c \<noteq> SaveImage \<Longrightarrow> untouched s (snd (perform c s))"
proof (cases c)
  case SaveImage
  moreover assume "c \<noteq> SaveImage"
  ultimately show ?thesis by simp
qed (simp_all add: untouched_refl untouched_send_message untouched_send_and_wait
      untouched_set_player_yaw untouched_request_image untouched_show_image
      untouched_reset_to_start enter_def exit_def close_osc_def init_osc_def
      get_project_name_def get_player_location_def get_player_rotation_def
      set_player_location_def move_forward_def move_backward_def turn_left_def turn_right_def
      take_screenshot_def,
    simp_all add: untouched_def)

lemma config_perform:
  "ip (snd (perform c s)) = ip s \<and> client_port (snd (perform c s)) = client_port s
   \<and> server_port (snd (perform c s)) = server_port s \<and> path (snd (perform c s)) = path s
   \<and> host (snd (perform c s)) = host s"
proof (cases "c = SaveImage")
  case True
  then show ?thesis by (simp add: save_image_eq)
next
  case False
  then have "untouched s (snd (perform c s))" by (rule untouched_perform)
  then show ?thesis by (simp add: untouched_def)
qed

lemma img_number_perform:
  "img_number (snd (perform c s)) = (if c = SaveImage then img_number s + 1 else img_number s)"
proof (cases "c = SaveImage")
  case True
  then show ?thesis by (simp add: save_image_eq)
next
  case False
  then have "untouched s (snd (perform c s))" by (rule untouched_perform)
  with False show ?thesis by (simp add: untouched_def)
qed

lemma config_perform_all:
  "ip (perform_all cs s) = ip s \<and> client_port (perform_all cs s) = client_port s
   \<and> server_port (perform_all cs s) = server_port s \<and> path (perform_all cs s) = path s
   \<and> host (perform_all cs s) = host s"
  by (induction cs arbitrary: s) (simp_all add: config_perform)

lemma img_number_perform_all:
  "SaveImage \<notin> set cs \<Longrightarrow> img_number (perform_all cs s) = img_number s"
  by (induction cs arbitrary: s) (auto simp: img_number_perform)

lemma img_number_perform_all_le: "img_number s \<le> img_number (perform_all cs s)"
proof (induction cs arbitrary: s)
  case Nil
  show ?case by simp
next
  case (Cons c cs)
  have "img_number s \<le> img_number (snd (perform c s))" by (simp add: img_number_perform)
  also have "\<dots> \<le> img_number (perform_all cs (snd (perform c s)))" by (rule Cons.IH)
  finally show ?case by simp
qed

subsection \<open>A session as constructed\<close>

lemma Communicator_Return:
  assumes "Communicator h i cp sp d = Return s0"
  shows "s0 = \<lparr>path = Path d, img_number = 0, ip = i, client_port = cp, server_port = sp,
               file_path = None, bound = True, serving = True, host = h, sent = [],
               latch = None, slept = 0, plot = []\<rparr>"
  using assms by (simp add: Communicator_def init_osc_def Let_def split: if_splits)

lemma Communicator_built:
  "port_free h \<Longrightarrow> Communicator h ''127.0.0.1'' 7447 7001 d = Return (built h d)"
  by (simp add: Communicator_def init_osc_def Let_def built_def)

lemma Communicator_session_on:
  "port_free h \<Longrightarrow> Communicator h ''127.0.0.1'' 7447 7001 ''imgs'' = Return (session_on h)"
  by (simp add: session_on_def Communicator_built)

subsection \<open>How wide the formatted image number is\<close>

lemma length_decimal_pos: "0 < length (decimal n)"
  by (subst decimal.simps) simp

lemma length_decimal_le: "n < 10 ^ Suc k \<Longrightarrow> length (decimal n) \<le> Suc k"
proof (induction k arbitrary: n)
  case 0
  then show ?case by (subst decimal.simps) simp
next
  case (Suc k)
  show ?case
  proof (cases "n < 10")
    case True
    then show ?thesis by (subst decimal.simps) simp
  next
    case False
    from Suc.prems have "n div 10 < 10 ^ Suc k" by simp
    then have "length (decimal (n div 10)) \<le> Suc k" by (rule Suc.IH)
    with False show ?thesis by (subst decimal.simps) simp
  qed
qed

lemma length_decimal_gt: "10 ^ k \<le> n \<Longrightarrow> k < length (decimal n)"
proof (induction k arbitrary: n)
  case 0
  show ?case by (rule length_decimal_pos)
next
  case (Suc k)
  then have "10 ^ k \<le> n div 10" by simp
  then have "k < length (decimal (n div 10))" by (rule Suc.IH)
  moreover from Suc.prems have "10 * 10 ^ k \<le> n" by simp
  moreover have "(1::nat) \<le> 10 ^ k" by simp
  ultimately have "k < length (decimal (n div 10)) \<and> \<not> n < 10" by linarith
  then show ?case by (subst decimal.simps) simp
qed

lemma length_format_06_small:
  assumes "0 \<le> n" and "n \<le> 999999"
  shows "length (format_06 n) = 6"
proof -
  from assms have "nat n < 10 ^ Suc 5" by simp
  then have "length (decimal (nat n)) \<le> Suc 5" by (rule length_decimal_le)
  with assms show ?thesis by (simp add: format_06_def zfill_def)
qed

lemma format_06_large:
  assumes "1000000 \<le> n"
  shows "format_06 n = decimal (nat n) \<and> 6 < length (decimal (nat n))"
proof -
  from assms have "10 ^ 6 \<le> nat n" by simp
  then have "6 < length (decimal (nat n))" by (rule length_decimal_gt)
  with assms show ?thesis by (simp add: format_06_def zfill_def)
qed

lemma format_06_1: "format_06 1 = ''000001''"
  by code_simp

lemma format_06_2: "format_06 2 = ''000002''"
  by code_simp

lemma format_06_3: "format_06 3 = ''000003''"
  by code_simp

lemma format_06_100: "format_06 100 = ''000100''"
  by code_simp

lemma format_06_million: "format_06 1000000 = ''1000000''"
  by (simp add: format_06_def zfill_def decimal.simps digit_char_def)

subsection \<open>Saving images\<close>

lemma img_number_save_image: "img_number (snd (save_image s)) = img_number s + 1"
  by (simp add: save_image_eq)

lemma config_save_image:
  "path (snd (save_image s)) = path s \<and> host (snd (save_image s)) = host s"
  by (simp add: save_image_eq)

lemma sent_save_image:
  "sent (snd (save_image s)) =
     sent s @ [(''/save/image'',
                PyStr (os_str (host s) (path s) @ ''/'' @ format_06 (img_number s + 1)))]"
  by (simp add: save_image_eq)

lemma frame_save_image_times:
  "img_number (save_image_times n s) = img_number s + int n
   \<and> path (save_image_times n s) = path s
   \<and> host (save_image_times n s) = host s"
  by (induction n) (simp_all add: img_number_save_image config_save_image)

lemma sent_save_image_times:
  "sent (save_image_times n s) =
     sent s @ map (\<lambda>k. (''/save/image'',
                          PyStr (os_str (host s) (path s) @ ''/'' @ format_06 (img_number s + int k))))
                  [1..<Suc n]"
proof (induction n)
  case 0
  show ?case by simp
next
  case (Suc n)
  have "sent (save_image_times (Suc n) s) =
          sent (save_image_times n s) @
            [(''/save/image'',
              PyStr (os_str (host s) (path s) @ ''/'' @ format_06 (img_number s + int (Suc n))))]"
    by (simp add: sent_save_image frame_save_image_times add_ac)
  with Suc.IH show ?case by simp
qed

lemma last_sent_save_image_times:
  assumes "0 < n"
  shows "last (sent (save_image_times n s)) =
           (''/save/image'',
            PyStr (os_str (host s) (path s) @ ''/'' @ format_06 (img_number s + int n)))"
proof -
  from assms obtain m where n: "n = Suc m" by (cases n) auto
  show ?thesis
    unfolding n by (simp add: sent_save_image frame_save_image_times add_ac)
qed

lemma request_image_reads:
  "file_path (snd (request_image s)) = Some (Div (path s) (format_06 (img_number s)))
   \<and> fst (request_image s) =
       (case image_open (host s) (Div (path s) (format_06 (img_number s))) of
          Inl e \<Rightarrow> Raise e | Inr img \<Rightarrow> Return (PyImage img))"
  by (simp add: request_image_def Let_def split: sum.splits)

subsection \<open>The stub engine\<close>

lemma echo_engine_set: "echo_engine (hist @ [(''/set/location'', p)]) = []"
  by (simp add: echo_engine_def)

lemma echo_engine_get:
  "echo_engine (hist @ [(''/set/location'', p), (''/get/location'', q)]) = [p]"
  by (simp add: echo_engine_def)

section \<open>The claims\<close>




text \<open>
  C2, as the code has it. On a fresh session, \<open>N\<close> calls of \<open>save_image\<close> in a row send
  exactly \<open>N\<close> datagrams to \<open>/save/image\<close>, the \<open>k\<close>-th with the file name \<open>format_06 k\<close>
  after the working directory and a slash; the image number is \<open>N\<close> afterwards and grows
  with every call. The file name is the decimal digits of \<open>N\<close> with zeros in front up to
  six characters: exactly six characters as long as \<open>N \<le> 999999\<close> (\<open>000001\<close> for the
  first call, \<open>000100\<close> for the hundredth), and the bare digits, more than six of them,
  from the millionth call on.
\<close>

theorem save_image_sequence:
  assumes "Communicator h i cp sp d = Return s0"
  shows "sent (save_image_times N s0) =
           map (\<lambda>k. (''/save/image'', PyStr (os_str h (Path d) @ ''/'' @ format_06 (int k))))
               [1..<Suc N]
       \<and> img_number (save_image_times N s0) = int N
       \<and> img_number (save_image_times N s0) < img_number (save_image_times (Suc N) s0)
       \<and> format_06 (int N) = replicate (6 - length (decimal N)) CHR ''0'' @ decimal N
       \<and> (if N \<le> 999999 then length (format_06 (int N)) = 6
          else format_06 (int N) = decimal N \<and> 6 < length (decimal N))
       \<and> format_06 1 = ''000001'' \<and> format_06 100 = ''000100''"
proof -
  note s0 = Communicator_Return [OF assms]
  have a: "sent (save_image_times N s0) =
           map (\<lambda>k. (''/save/image'', PyStr (os_str h (Path d) @ ''/'' @ format_06 (int k))))
               [1..<Suc N]"
    using sent_save_image_times [of N s0] by (simp add: s0)
  have b: "img_number (save_image_times N s0) = int N"
    using frame_save_image_times [of N s0] by (simp add: s0)
  have c: "img_number (save_image_times N s0) < img_number (save_image_times (Suc N) s0)"
    by (simp add: img_number_save_image)
  have d: "format_06 (int N) = replicate (6 - length (decimal N)) CHR ''0'' @ decimal N"
    by (simp add: format_06_def zfill_def)
  have e: "if N \<le> 999999 then length (format_06 (int N)) = 6
          else format_06 (int N) = decimal N \<and> 6 < length (decimal N)"
  proof (cases "N \<le> 999999")
    case True
    then show ?thesis using length_format_06_small [of "int N"] by simp
  next
    case False
    then show ?thesis using format_06_large [of "int N"] by simp
  qed
  from a b c d e format_06_1 format_06_100 show ?thesis by blast
qed

theorem save_image_sequence_witness:
  "Communicator echo_host ''127.0.0.1'' 7447 7001 ''imgs'' = Return (session_on echo_host)
   \<and> sent (save_image_times 3 (session_on echo_host)) =
       [(''/save/image'', PyStr ''imgs/000001''), (''/save/image'', PyStr ''imgs/000002''),
        (''/save/image'', PyStr ''imgs/000003'')]
   \<and> img_number (save_image_times 3 (session_on echo_host)) = 3"
proof -
  have h: "Communicator echo_host ''127.0.0.1'' 7447 7001 ''imgs'' = Return (session_on echo_host)"
    by (rule Communicator_session_on) (simp add: echo_host_def)
  have u: "[1..<Suc 3] = [1, 2, 3]" by (simp add: upt_rec)
  note t = save_image_sequence [OF h, of 3]
  have a: "sent (save_image_times 3 (session_on echo_host)) =
       [(''/save/image'', PyStr ''imgs/000001''), (''/save/image'', PyStr ''imgs/000002''),
        (''/save/image'', PyStr ''imgs/000003'')]"
    unfolding conjunct1 [OF t] u
    by (simp add: echo_host_def format_06_1 format_06_2 format_06_3)
  have b: "img_number (save_image_times 3 (session_on echo_host)) = 3"
    using conjunct1 [OF conjunct2 [OF t]] by simp
  from h a b show ?thesis by simp
qed

text \<open>
  C2, as the claim has it, fails at the millionth call: on the fresh session
  \<open>Communicator("127.0.0.1", 7447, 7001, "imgs")\<close> the 1000000th \<open>save_image\<close> sends the
  file name \<open>1000000\<close>, which has seven digits, not six.
\<close>

theorem save_image_millionth_counterexample:
  "Communicator echo_host ''127.0.0.1'' 7447 7001 ''imgs'' = Return (session_on echo_host)
   \<and> last (sent (save_image_times 1000000 (session_on echo_host))) =
       (''/save/image'', PyStr (''imgs'' @ ''/'' @ ''1000000''))
   \<and> length ''1000000'' \<noteq> (6::nat)"
proof -
  have "Communicator echo_host ''127.0.0.1'' 7447 7001 ''imgs'' = Return (session_on echo_host)"
    by (rule Communicator_session_on) (simp add: echo_host_def)
  moreover have "last (sent (save_image_times 1000000 (session_on echo_host))) =
       (''/save/image'', PyStr (''imgs'' @ ''/'' @ ''1000000''))"
    using last_sent_save_image_times [of 1000000 "session_on echo_host"] format_06_million
    by (simp add: session_on_def built_def echo_host_def)
  ultimately show ?thesis by simp
qed

text \<open>
  C3. Moving backward by an amount sends the same datagram as moving forward by the
  negated amount: in every session, and for every amount (so for every positive one),
  \<open>move_backward amount\<close> and \<open>move_forward (- amount)\<close> have the same outcome and leave
  the same session. Each of them adds one datagram to \<open>/move/forward\<close> with the single
  float \<open>- amount\<close>, in single precision, and returns; or, when \<open>- amount\<close> does not pack
  as a single, each of them raises \<open>OverflowError\<close> and sends nothing.
\<close>

theorem move_backward_is_move_forward_negated:
  "move_backward amount s = move_forward (- amount) s
   \<and> (case float32 (- amount) of
         None \<Rightarrow>
           move_backward amount s = (Raise OverflowError, s)
           \<and> move_forward (- amount) s = (Raise OverflowError, s)
       | Some r \<Rightarrow>
           fst (move_backward amount s) = Return PyNone
           \<and> sent (snd (move_backward amount s)) = sent s @ [(''/move/forward'', PyFloat r)]
           \<and> fst (move_forward (- amount) s) = Return PyNone
           \<and> sent (snd (move_forward (- amount) s)) = sent s @ [(''/move/forward'', PyFloat r)])"
  using send_message_float_sent [of "''/move/forward''" "- amount" s]
  by (simp add: move_backward_def move_forward_def py_float_def split: option.splits)

text \<open>
  C4. Round trip of the location. Take the stub engine that echoes the location it was
  last set, a session whose server is serving and whose latch holds no stale reply, and
  valid coordinates: doubles that pack as singles, which all doubles of magnitude below
  \<open>2 ^ 128 - 2 ^ 103\<close> do. Then \<open>set_player_location x y z\<close> followed by
  \<open>get_player_location\<close> returns the three coordinates as the wire carried them, in
  single precision; each differs from the coordinate set by at most its \<open>2 ^ 24\<close>-th
  part (or by \<open>2 ^ -150\<close>, where that is more).
\<close>

theorem location_round_trip:
  assumes "engine (host s) = echo_engine" and "serving s" and "latch s = None"
    and "\<bar>x\<bar> < 2 powi 128 - 2 powi 103" and "\<bar>y\<bar> < 2 powi 128 - 2 powi 103"
    and "\<bar>z\<bar> < 2 powi 128 - 2 powi 103"
  shows "fst (get_player_location (snd (set_player_location x y z s))) =
           Return (PyList [PyFloat (round32 x), PyFloat (round32 y), PyFloat (round32 z)])
       \<and> \<bar>round32 x - x\<bar> \<le> max (\<bar>x\<bar> / 2 ^ 24) (2 powi (- 150))
       \<and> \<bar>round32 y - y\<bar> \<le> max (\<bar>y\<bar> / 2 ^ 24) (2 powi (- 150))
       \<and> \<bar>round32 z - z\<bar> \<le> max (\<bar>z\<bar> / 2 ^ 24) (2 powi (- 150))"
proof -
  note f = float32_in_range [OF assms(4)] float32_in_range [OF assms(5)]
    float32_in_range [OF assms(6)]
  have "fst (get_player_location (snd (set_player_location x y z s))) =
           Return (PyList [PyFloat (round32 x), PyFloat (round32 y), PyFloat (round32 z)])"
    using assms(1-3)
    by (simp add: get_player_location_def set_player_location_def send_and_wait_def
        and_then_def send_message_triple send_message_float f float32_0
        wait_for_response_def release_def echo_engine_set echo_engine_get)
  with round32_tolerance [of x] round32_tolerance [of y] round32_tolerance [of z]
  show ?thesis by blast
qed

theorem location_round_trip_witness:
  "engine (host (session_on echo_host)) = echo_engine \<and> serving (session_on echo_host)
   \<and> latch (session_on echo_host) = None
   \<and> fst (get_player_location (snd (set_player_location 16777217 2 3 (session_on echo_host)))) =
       Return (PyList [PyFloat 16777216, PyFloat 2, PyFloat 3])"
proof -
  have e: "engine (host (session_on echo_host)) = echo_engine"
    by (simp add: session_on_def built_def echo_host_def)
  have v: "serving (session_on echo_host)" by (simp add: session_on_def built_def)
  have l: "latch (session_on echo_host) = None" by (simp add: session_on_def built_def)
  have x: "\<bar>16777217::real\<bar> < 2 powi 128 - 2 powi 103" by simp
  have y: "\<bar>2::real\<bar> < 2 powi 128 - 2 powi 103" by simp
  have z: "\<bar>3::real\<bar> < 2 powi 128 - 2 powi 103" by simp
  show ?thesis
    using e v l location_round_trip [OF e v l x y z] by (simp add: round32_values)
qed

text \<open>
  C5. Each of \<open>get_project_name\<close>, \<open>get_player_location\<close> and \<open>get_player_rotation\<close>
  sends exactly one datagram, to \<open>/get/project\<close>, \<open>/get/location\<close> and \<open>/get/rotation\<close>
  respectively, with the dummy float \<open>0.0\<close> as payload, whether or not a reply comes; and
  its outcome is what the latch delivers after that datagram: the value in the slot, or
  no return while the slot is empty.
\<close>

theorem request_reply_operations:
  "sent (snd (get_project_name s)) = sent s @ [(''/get/project'', PyFloat 0)]
   \<and> sent (snd (get_player_location s)) = sent s @ [(''/get/location'', PyFloat 0)]
   \<and> sent (snd (get_player_rotation s)) = sent s @ [(''/get/rotation'', PyFloat 0)]
   \<and> fst (get_project_name s) =
       (case latch (snd (send_message ''/get/project'' (PyFloat 0) s)) of
          None \<Rightarrow> Blocks | Some v \<Rightarrow> Return v)
   \<and> fst (get_player_location s) =
       (case latch (snd (send_message ''/get/location'' (PyFloat 0) s)) of
          None \<Rightarrow> Blocks | Some v \<Rightarrow> Return v)
   \<and> fst (get_player_rotation s) =
       (case latch (snd (send_message ''/get/rotation'' (PyFloat 0) s)) of
          None \<Rightarrow> Blocks | Some v \<Rightarrow> Return v)"
  by (simp add: get_project_name_def get_player_location_def get_player_rotation_def
      sent_send_and_wait send_and_wait_outcome)

text \<open>
  C6, as the code has it. For every working directory \<open>d\<close> given at construction and
  every way the host prints paths (\<open>os_str\<close>), in every session reached from the
  constructed one by any calls, \<open>save_image\<close> sends one datagram to \<open>/save/image\<close> whose
  string is the working directory as the host prints it (with the host's own separators
  inside it), then a forward slash whatever the host, then the formatted image number.
  That number is at least one; its digits read back give the number; and they are
  exactly six as long as the number is at most 999999, more than six beyond.
\<close>

theorem save_image_payload_path:
  assumes "Communicator h i cp sp d = Return s0"
  shows "sent (snd (save_image (perform_all cs s0))) =
           sent (perform_all cs s0) @
             [(''/save/image'',
               PyStr (os_str h (Path d) @ ''/'' @ format_06 (img_number (perform_all cs s0) + 1)))]
       \<and> 0 \<le> img_number (perform_all cs s0)
       \<and> py_int (format_06 (img_number (perform_all cs s0) + 1)) =
           nat (img_number (perform_all cs s0) + 1)
       \<and> (if img_number (perform_all cs s0) + 1 \<le> 999999
          then length (format_06 (img_number (perform_all cs s0) + 1)) = 6
          else 6 < length (format_06 (img_number (perform_all cs s0) + 1)))"
proof -
  note s0 = Communicator_Return [OF assms]
  let ?n = "img_number (perform_all cs s0)"
  have a: "sent (snd (save_image (perform_all cs s0))) =
           sent (perform_all cs s0) @
             [(''/save/image'', PyStr (os_str h (Path d) @ ''/'' @ format_06 (?n + 1)))]"
    using config_perform_all [of cs s0] sent_save_image [of "perform_all cs s0"]
    by (simp add: s0)
  have b: "0 \<le> ?n"
    using img_number_perform_all_le [of s0 cs] by (simp add: s0)
  then have c: "py_int (format_06 (?n + 1)) = nat (?n + 1)"
    by (intro py_int_format_06) simp
  have e: "if ?n + 1 \<le> 999999 then length (format_06 (?n + 1)) = 6
           else 6 < length (format_06 (?n + 1))"
  proof (cases "?n + 1 \<le> 999999")
    case True
    with b show ?thesis using length_format_06_small [of "?n + 1"] by simp
  next
    case False
    then show ?thesis using format_06_large [of "?n + 1"] by simp
  qed
  from a b c e show ?thesis by blast
qed

theorem save_image_payload_path_witness:
  "Communicator echo_host ''127.0.0.1'' 7447 7001 ''imgs'' = Return (session_on echo_host)
   \<and> sent (snd (save_image (perform_all [MoveForward 1] (session_on echo_host)))) =
       [(''/move/forward'', PyFloat 1), (''/save/image'', PyStr ''imgs/000001'')]"
proof -
  have h: "Communicator echo_host ''127.0.0.1'' 7447 7001 ''imgs'' = Return (session_on echo_host)"
    by (rule Communicator_session_on) (simp add: echo_host_def)
  have m: "perform_all [MoveForward 1] (session_on echo_host) =
             (session_on echo_host)\<lparr>sent := [(''/move/forward'', PyFloat 1)]\<rparr>"
    by (simp add: move_forward_def py_float_def send_message_float float32_values
        session_on_def built_def echo_host_def release_def echo_engine_def)
  note t = conjunct1 [OF save_image_payload_path [OF h, of "[MoveForward 1]"]]
  have "sent (snd (save_image (perform_all [MoveForward 1] (session_on echo_host)))) =
          sent (perform_all [MoveForward 1] (session_on echo_host)) @
            [(''/save/image'',
              PyStr (os_str echo_host (Path ''imgs'') @ ''/'' @
                     format_06 (img_number (perform_all [MoveForward 1] (session_on echo_host)) + 1)))]"
    by (rule t)
  also have "\<dots> = [(''/move/forward'', PyFloat 1), (''/save/image'', PyStr ''imgs/000001'')]"
    unfolding m by (simp add: session_on_def built_def echo_host_def format_06_1)
  finally show ?thesis using h by simp
qed

text \<open>
  C6, as the claim has it, fails on a Windows host: for the working directory
  \<open>C:/ue/imgs\<close> the first \<open>save_image\<close> sends a string whose directory part is separated
  by backslashes, with the one forward slash before the number; and the millionth sends
  a number of seven digits.
\<close>

theorem save_image_windows_counterexample:
  "Communicator windows_host ''127.0.0.1'' 7447 7001 ''C:/ue/imgs'' =
     Return (built windows_host ''C:/ue/imgs'')
   \<and> sent (snd (save_image (built windows_host ''C:/ue/imgs''))) =
       [(''/save/image'',
         PyStr (''C:'' @ backslash # ''ue'' @ backslash # ''imgs'' @ ''/'' @ ''000001''))]
   \<and> backslash \<in> set (''C:'' @ backslash # ''ue'' @ backslash # ''imgs'')
   \<and> backslash \<noteq> CHR ''/''
   \<and> last (sent (save_image_times 1000000 (built windows_host ''C:/ue/imgs''))) =
       (''/save/image'',
        PyStr (''C:'' @ backslash # ''ue'' @ backslash # ''imgs'' @ ''/'' @ ''1000000''))
   \<and> length ''1000000'' \<noteq> (6::nat)"
proof -
  have a: "Communicator windows_host ''127.0.0.1'' 7447 7001 ''C:/ue/imgs'' =
     Return (built windows_host ''C:/ue/imgs'')"
    by (rule Communicator_built) (simp add: windows_host_def)
  have p: "os_str (host (built windows_host ''C:/ue/imgs'')) (path (built windows_host ''C:/ue/imgs''))
             = ''C:'' @ backslash # ''ue'' @ backslash # ''imgs''"
    by (simp add: built_def windows_host_def)
  have b: "sent (snd (save_image (built windows_host ''C:/ue/imgs''))) =
       [(''/save/image'',
         PyStr (''C:'' @ backslash # ''ue'' @ backslash # ''imgs'' @ ''/'' @ ''000001''))]"
    unfolding sent_save_image p by (simp add: built_def format_06_1)
  have c: "last (sent (save_image_times 1000000 (built windows_host ''C:/ue/imgs''))) =
       (''/save/image'',
        PyStr (''C:'' @ backslash # ''ue'' @ backslash # ''imgs'' @ ''/'' @ ''1000000''))"
    using last_sent_save_image_times [of 1000000 "built windows_host ''C:/ue/imgs''"]
      format_06_million
    unfolding p by (simp add: built_def)
  have d: "backslash \<noteq> CHR ''/''" by (simp add: backslash_def)
  from a b c d show ?thesis by simp
qed



text \<open>
  C8. The endpoint configuration is what the constructor was given and no call changes
  it: after any sequence of calls on a constructed session the remote host, the send
  port, the receive port and the working directory are the constructor's arguments; and
  a single call, on any session, leaves the four fields as they were.
\<close>

theorem endpoint_config_never_mutated:
  assumes "Communicator h i cp sp d = Return s0"
  shows "ip (perform_all cs s0) = i \<and> client_port (perform_all cs s0) = cp
       \<and> server_port (perform_all cs s0) = sp \<and> path (perform_all cs s0) = Path d
       \<and> ip (snd (perform c s)) = ip s \<and> client_port (snd (perform c s)) = client_port s
       \<and> server_port (snd (perform c s)) = server_port s \<and> path (snd (perform c s)) = path s"
  using Communicator_Return [OF assms] config_perform_all [of cs s0] config_perform [of c s]
  by simp

theorem endpoint_config_never_mutated_witness:
  "Communicator echo_host ''127.0.0.1'' 7447 7001 ''imgs'' = Return (session_on echo_host)
   \<and> ip (perform_all [SaveImage, SetPlayerLocation 1 2 3, GetPlayerLocation, CloseOsc]
           (session_on echo_host)) = ''127.0.0.1''
   \<and> client_port (perform_all [SaveImage, SetPlayerLocation 1 2 3, GetPlayerLocation, CloseOsc]
           (session_on echo_host)) = 7447
   \<and> server_port (perform_all [SaveImage, SetPlayerLocation 1 2 3, GetPlayerLocation, CloseOsc]
           (session_on echo_host)) = 7001
   \<and> path (perform_all [SaveImage, SetPlayerLocation 1 2 3, GetPlayerLocation, CloseOsc]
           (session_on echo_host)) = Path ''imgs''"
proof -
  have h: "Communicator echo_host ''127.0.0.1'' 7447 7001 ''imgs'' = Return (session_on echo_host)"
    by (rule Communicator_session_on) (simp add: echo_host_def)
  show ?thesis
    using h endpoint_config_never_mutated [OF h,
        of "[SaveImage, SetPlayerLocation 1 2 3, GetPlayerLocation, CloseOsc]" SaveImage
           "session_on echo_host"]
    by simp
qed

text \<open>
  C9. On exit from the scope, left normally or by an exception, \<open>__exit__\<close> returns with
  the receive loop stopped and the server thread joined: the session is no longer
  serving. But nothing closes the socket: the session is as bound to the receive port
  after \<open>__exit__\<close> as before. So the session built by
  \<open>Communicator("127.0.0.1", 7447, 7001, "imgs")\<close> still holds its socket after the
  scope, left either way, and a later \<open>init_osc\<close> on it raises \<open>OSError\<close> because the
  port is still in use.
\<close>

theorem exit_joins_thread_keeps_socket:
  "fst (exit exc s) = Return PyNone
   \<and> \<not> serving (snd (exit exc s))
   \<and> bound (snd (exit exc s)) = bound s
   \<and> Communicator echo_host ''127.0.0.1'' 7447 7001 ''imgs'' = Return (session_on echo_host)
   \<and> bound (snd (exit None (session_on echo_host)))
   \<and> bound (snd (exit (Some ValueError) (session_on echo_host)))
   \<and> fst (init_osc (snd (exit None (session_on echo_host)))) = Raise OSError"
proof -
  have "Communicator echo_host ''127.0.0.1'' 7447 7001 ''imgs'' = Return (session_on echo_host)"
    by (rule Communicator_session_on) (simp add: echo_host_def)
  then show ?thesis
    by (simp add: exit_def close_osc_def init_osc_def session_on_def built_def)
qed

text \<open>
  C10. Only \<open>save_image\<close> changes the image number, and by exactly one: any call adds
  one to it if it is \<open>save_image\<close> and leaves it as it was otherwise. So after
  \<open>save_image\<close> has sent the file name made from the number \<open>img_number + 1\<close>, and after
  any further calls other than \<open>save_image\<close>, \<open>request_image\<close> opens the path made from
  that same number, and returns the image found there or raises what opening it raises.
\<close>

theorem img_number_changed_only_by_save_image:
  assumes "SaveImage \<notin> set cs"
  shows "img_number (snd (perform c s)) = (if c = SaveImage then img_number s + 1 else img_number s)
       \<and> img_number (snd (save_image s)) = img_number s + 1
       \<and> last (sent (snd (save_image s))) =
           (''/save/image'',
            PyStr (os_str (host s) (path s) @ ''/'' @ format_06 (img_number s + 1)))
       \<and> file_path (snd (request_image (perform_all cs (snd (save_image s))))) =
           Some (Div (path s) (format_06 (img_number s + 1)))
       \<and> fst (request_image (perform_all cs (snd (save_image s)))) =
           (case image_open (host s) (Div (path s) (format_06 (img_number s + 1))) of
              Inl e \<Rightarrow> Raise e | Inr img \<Rightarrow> Return (PyImage img))"
proof -
  let ?s1 = "snd (save_image s)"
  have n: "img_number (perform_all cs ?s1) = img_number s + 1"
    using img_number_perform_all [OF assms, of ?s1] by (simp add: img_number_save_image)
  have p: "path (perform_all cs ?s1) = path s \<and> host (perform_all cs ?s1) = host s"
    using config_perform_all [of cs ?s1] by (simp add: config_save_image)
  show ?thesis
    using request_image_reads [of "perform_all cs ?s1"]
    by (simp add: n p img_number_perform img_number_save_image sent_save_image)
qed

theorem img_number_changed_only_by_save_image_witness:
  "SaveImage \<notin> set [MoveForward 1, RequestImage]
   \<and> last (sent (snd (save_image (session_on echo_host)))) =
       (''/save/image'', PyStr ''imgs/000001'')
   \<and> file_path (snd (request_image (perform_all [MoveForward 1, RequestImage]
                                       (snd (save_image (session_on echo_host)))))) =
       Some (Div (Path ''imgs'') ''000001'')
   \<and> fst (request_image (perform_all [MoveForward 1, RequestImage]
                                       (snd (save_image (session_on echo_host))))) =
       Return (PyImage ''PNG'')"
proof -
  have h: "SaveImage \<notin> set [MoveForward 1, RequestImage]" by simp
  show ?thesis
    using h img_number_changed_only_by_save_image [OF h, of SaveImage "session_on echo_host"]
    by (simp add: session_on_def built_def echo_host_def format_06_1)
qed

end
